theory Spec2Isabelle
  imports Main "HOL-Library.Word"
begin

section \<open>The authority server of lib/auth/auth.go\<close>

text \<open>
  The Go file \<^verbatim>\<open>lib/auth/auth.go\<close> defines \<^verbatim>\<open>AuthServer\<close>: a facade over a signing
  backend (the \<^verbatim>\<open>Authority\<close> interface) and over the directory services of
  \<^verbatim>\<open>lib/services\<close>. Every method is translated below as a function that takes the server
  state and returns the Go result (\<open>Inl\<close> the error) together with the state after the
  call. \<^verbatim>\<open>trace.Wrap\<close> only decorates an error with a stack trace and is the identity here;
  the logging calls write to the log and to standard output only and are left out.
\<close>

subsection \<open>Data\<close>

type_synonym bytes = "8 word list"

text \<open>\<^verbatim>\<open>teleport.Role\<close> is a Go string type; \<^verbatim>\<open>string(role)\<close> is the identity.\<close>

type_synonym teleport_Role = string

text \<open>\<^verbatim>\<open>time.Duration\<close> counts nanoseconds.\<close>

type_synonym Duration = int

definition Minute :: Duration where
  "Minute = 60 * 1000000000"

datatype Location = UTC | Local

text \<open>
  A \<^verbatim>\<open>time.Time\<close> of the Go library, as a wall-clock reading: the seconds since
  January 1 of year 1 (a signed 64-bit count), the nanoseconds within the second, and
  the location it is shown in. \<^verbatim>\<open>UTC()\<close> sets the location and drops the monotonic
  reading, so the \<^verbatim>\<open>Add\<close> that follows it in the file works on the wall clock alone:
  it splits the duration into seconds and nanoseconds with Go's truncating division,
  carries the nanoseconds, and adds the seconds with \<^verbatim>\<open>addSec\<close>, which does not wrap
  around but stops at the largest (or the smallest) second.
\<close>

record Time =
  sec :: "64 word"
  nsec :: int
  location :: Location

definition go_quot :: "int \<Rightarrow> int \<Rightarrow> int" where
  "go_quot a b = sgn a * sgn b * (\<bar>a\<bar> div \<bar>b\<bar>)"

definition go_rem :: "int \<Rightarrow> int \<Rightarrow> int" where
  "go_rem a b = a - b * go_quot a b"

definition maxInt64 :: "64 word" where
  "maxInt64 = 0x7FFFFFFFFFFFFFFF"

definition Time_UTC :: "Time \<Rightarrow> Time" where
  "Time_UTC t = t\<lparr>location := UTC\<rparr>"

definition Time_addSec :: "Time \<Rightarrow> int \<Rightarrow> Time" where
  "Time_addSec t d =
     (let sum = sec t + word_of_int d in
      if (sint sum > sint (sec t)) = (d > 0) then t\<lparr>sec := sum\<rparr>
      else if d > 0 then t\<lparr>sec := maxInt64\<rparr>
      else t\<lparr>sec := - maxInt64\<rparr>)"

definition Time_Add :: "Time \<Rightarrow> Duration \<Rightarrow> Time" where
  "Time_Add t d =
     (let dsec = go_quot d 1000000000;
          n = nsec t + go_rem d 1000000000
      in if n \<ge> 1000000000 then Time_addSec (t\<lparr>nsec := n - 1000000000\<rparr>) (dsec + 1)
         else if n < 0 then Time_addSec (t\<lparr>nsec := n + 1000000000\<rparr>) (dsec - 1)
         else Time_addSec (t\<lparr>nsec := n\<rparr>) dsec)"

text \<open>The error values of the \<^verbatim>\<open>teleport\<close> and \<^verbatim>\<open>trace\<close> packages that the file builds or passes on.\<close>

datatype error =
    BadParameter string string
  | NotFound string
  | AccessDenied string
  | AlreadyExists string
  | Errorf string

datatype CertAuthType = HostCA | UserCA

datatype CertAuthID = CertAuthID CertAuthType string

record CertAuthority =
  SigningKeys :: "bytes list"
  CheckingKeys :: "bytes list"

record ProvisionToken =
  DomainName :: string
  Role :: string

record services_User =
  Name :: string
  AllowedLogins :: "string list"

record WebSession =
  Priv :: bytes
  Pub :: bytes
  Expires :: Time
  BearerToken :: string

record Session =
  ID :: string
  User :: services_User
  WS :: WebSession

record PackedKeys =
  Key :: bytes
  Cert :: bytes

record encryptor_Key =
  KeyID :: string
  KeyName :: string
  PrivateValue :: bytes
  PublicValue :: bytes

record BkKeys =
  seal_keys :: "encryptor_Key list"
  sign_keys :: "encryptor_Key list"

text \<open>The calls that reach the signing backend, in the order they are made.\<close>

datatype backend_call =
    CallGenerateKeyPair string
  | CallGetNewKeyPairFromPool
  | CallGenerateHostCert bytes bytes string string teleport_Role Duration
  | CallGenerateUserCert bytes bytes string Duration

text \<open>
  The state of an \<^verbatim>\<open>AuthServer\<close>: its clock and host name, the content of the directory
  services behind it, the number of draws made so far from the random source and the
  signing backend (their answers may differ from draw to draw), and the log of the calls
  made to the signing backend.
\<close>

record AuthServer =
  clock_Now :: Time
  Hostname :: string
  cert_authorities :: "CertAuthID \<rightharpoonup> CertAuthority"
  tokens :: "string \<rightharpoonup> ProvisionToken \<times> Duration"
  web_sessions :: "string \<times> string \<rightharpoonup> WebSession \<times> Duration"
  users :: "string \<rightharpoonup> services_User"
  bk_keys :: BkKeys
  draws :: nat
  backend_log :: "backend_call list"

text \<open>
  The collaborators whose code is outside the file and on whose inner working no method
  of the file depends: the name and role checks, the reader of the random source, the
  token codec, the signing backend, the password check and the key-management service.
  Each is a parameter; the random source and the backend take the number of the draw.
  The reader is given the number of bytes wanted and answers with the bytes it read and
  its error, if any.
\<close>

record deps =
  IsValidDomainName :: "string \<Rightarrow> bool"
  Role_Check :: "teleport_Role \<Rightarrow> error option"
  RoleAuth :: teleport_Role
  rand_Reader_Read :: "nat \<Rightarrow> nat \<Rightarrow> bytes \<times> error option"
  JoinTokenRole :: "string \<Rightarrow> string \<Rightarrow> error + string"
  SplitTokenRole :: "string \<Rightarrow> error + string \<times> string"
  Authority_GenerateKeyPair :: "nat \<Rightarrow> string \<Rightarrow> error + bytes \<times> bytes"
  Authority_GetNewKeyPairFromPool :: "nat \<Rightarrow> error + bytes \<times> bytes"
  Authority_GenerateHostCert ::
    "nat \<Rightarrow> bytes \<Rightarrow> bytes \<Rightarrow> string \<Rightarrow> string \<Rightarrow> teleport_Role \<Rightarrow> Duration \<Rightarrow> error + bytes"
  Authority_GenerateUserCert :: "nat \<Rightarrow> bytes \<Rightarrow> bytes \<Rightarrow> string \<Rightarrow> Duration \<Rightarrow> error + bytes"
  CheckPasswordWOToken :: "string \<Rightarrow> bytes \<Rightarrow> error option"
  BkKeys_AddSealKey :: "BkKeys \<Rightarrow> encryptor_Key \<Rightarrow> error + BkKeys"
  BkKeys_GetSignKey :: "BkKeys \<Rightarrow> error + encryptor_Key"

subsection \<open>Constants\<close>

definition WebSessionTTL :: Duration where
  "WebSessionTTL = 10 * Minute"

definition TokenLenBytes :: nat where
  "TokenLenBytes = 16"

definition WebSessionTokenLenBytes :: nat where
  "WebSessionTokenLenBytes = 32"

subsection \<open>Directory services\<close>

text \<open>
  Modelled from the spec: the certificate-authority store of \<^verbatim>\<open>lib/services\<close>
  (\<^verbatim>\<open>CAService.GetCertAuthority\<close>, \<^verbatim>\<open>CertAuthority.FirstSigningKey\<close>) is not among the
  sources. The spec: look up the CA record for the kind and the local trust domain,
  absent gives the error "no such CA"; take the first signing key, zero keys gives the
  error "no signing key available", both of the not-found kind. The signing keys are
  returned when \<open>loadSigningKeys\<close> is set.
\<close>

definition GetCertAuthority ::
  "AuthServer \<Rightarrow> CertAuthID \<Rightarrow> bool \<Rightarrow> error + CertAuthority" where
  "GetCertAuthority s caid loadSigningKeys =
     (case cert_authorities s caid of
        None \<Rightarrow> Inl (NotFound ''no such CA'')
      | Some ca \<Rightarrow> Inr (if loadSigningKeys then ca else ca\<lparr>SigningKeys := []\<rparr>))"

definition FirstSigningKey :: "CertAuthority \<Rightarrow> error + bytes" where
  "FirstSigningKey ca =
     (case SigningKeys ca of
        [] \<Rightarrow> Inl (NotFound ''no signing key available'')
      | k # _ \<Rightarrow> Inr k)"

text \<open>
  Modelled from the spec: the provisioning store of \<^verbatim>\<open>lib/services\<close>
  (\<^verbatim>\<open>ProvisioningService\<close>) is not among the sources. The spec: \<open>upsertToken\<close> persists
  the node name, the role and the TTL keyed by the raw token, \<open>getToken\<close> fetches the
  record, \<open>deleteToken\<close> removes it, a missing token is a not-found error. The record
  read back has the fields \<^verbatim>\<open>DomainName\<close> and \<^verbatim>\<open>Role\<close> that the file reads; the node
  name is the one stored under \<^verbatim>\<open>DomainName\<close>, since \<^verbatim>\<open>RegisterUsingToken\<close> compares that
  field with the node name. Expiry needs time to pass and no operation here lets it.
\<close>

definition ProvisioningService_UpsertToken ::
  "AuthServer \<Rightarrow> string \<Rightarrow> string \<Rightarrow> string \<Rightarrow> Duration \<Rightarrow> error option \<times> AuthServer" where
  "ProvisioningService_UpsertToken s token domainName role ttl =
     (None, s\<lparr>tokens := (tokens s)(token \<mapsto> (\<lparr>DomainName = domainName, Role = role\<rparr>, ttl))\<rparr>)"

definition ProvisioningService_GetToken :: "AuthServer \<Rightarrow> string \<Rightarrow> error + ProvisionToken" where
  "ProvisioningService_GetToken s token =
     (case tokens s token of
        None \<Rightarrow> Inl (NotFound ''token not found'')
      | Some (tok, ttl) \<Rightarrow> Inr tok)"

definition ProvisioningService_DeleteToken ::
  "AuthServer \<Rightarrow> string \<Rightarrow> error option \<times> AuthServer" where
  "ProvisioningService_DeleteToken s token =
     (case tokens s token of
        None \<Rightarrow> (Some (NotFound ''token not found''), s)
      | Some r \<Rightarrow> (None, s\<lparr>tokens := (tokens s)(token := None)\<rparr>))"

text \<open>
  Modelled from the spec: the web-session store and the user directory of
  \<^verbatim>\<open>lib/services\<close> (\<^verbatim>\<open>WebService\<close>) are not among the sources. The spec:
  \<open>upsertWebSession\<close> persists or overwrites the session under the user and the session
  ID, \<open>getWebSession\<close> fetches it, \<open>deleteWebSession\<close> removes it, \<open>getUser\<close> fetches
  the user record by name. What is read back is a copy: changing it does not change the
  store.
\<close>

definition WebService_UpsertWebSession ::
  "AuthServer \<Rightarrow> string \<Rightarrow> string \<Rightarrow> WebSession \<Rightarrow> Duration \<Rightarrow> error option \<times> AuthServer" where
  "WebService_UpsertWebSession s user sid ws ttl =
     (None, s\<lparr>web_sessions := (web_sessions s)((user, sid) \<mapsto> (ws, ttl))\<rparr>)"

definition WebService_GetWebSession :: "AuthServer \<Rightarrow> string \<Rightarrow> string \<Rightarrow> error + WebSession" where
  "WebService_GetWebSession s user sid =
     (case web_sessions s (user, sid) of
        None \<Rightarrow> Inl (NotFound ''web session not found'')
      | Some (ws, ttl) \<Rightarrow> Inr ws)"

definition WebService_DeleteWebSession ::
  "AuthServer \<Rightarrow> string \<Rightarrow> string \<Rightarrow> error option \<times> AuthServer" where
  "WebService_DeleteWebSession s user sid =
     (case web_sessions s (user, sid) of
        None \<Rightarrow> (Some (NotFound ''web session not found''), s)
      | Some r \<Rightarrow> (None, s\<lparr>web_sessions := (web_sessions s)((user, sid) := None)\<rparr>))"

definition GetUser :: "AuthServer \<Rightarrow> string \<Rightarrow> error + services_User" where
  "GetUser s userName =
     (case users s userName of
        None \<Rightarrow> Inl (NotFound ''user not found'')
      | Some u \<Rightarrow> Inr u)"

text \<open>
  Modelled from the spec: \<^verbatim>\<open>encryptor.Key.Public\<close> is not among the sources. The spec:
  only the public half of the local sign key is returned.
\<close>

definition Key_Public :: "encryptor_Key \<Rightarrow> encryptor_Key" where
  "Key_Public k = k\<lparr>PrivateValue := []\<rparr>"

subsection \<open>The random source\<close>

text \<open>
  \<^verbatim>\<open>hex.EncodeToString\<close> of the Go library: two lower-case hexadecimal digits for each
  byte, the high four bits first.
\<close>

definition hextable :: string where
  "hextable = ''0123456789abcdef''"

definition hex_EncodeToString :: "bytes \<Rightarrow> string" where
  "hex_EncodeToString src =
     concat (map (\<lambda>v. [hextable ! (unat v div 16), hextable ! (unat v mod 16)]) src)"

text \<open>
  Modelled from the spec: \<^verbatim>\<open>utils.CryptoRandomHex\<close> of \<^verbatim>\<open>lib/utils\<close> is not among the
  sources. The spec: a cryptographically secure random hex generator of a given byte
  length. It makes a buffer of that many bytes, lets the reader of the random source
  write into it, fails with the error of the reader, and otherwise returns the
  hexadecimal encoding of the buffer. The arguments are the collaborators, the number
  of the draw and the byte length.
\<close>

definition CryptoRandomHex :: "deps \<Rightarrow> nat \<Rightarrow> nat \<Rightarrow> error + string" where
  "CryptoRandomHex env i len =
     (case rand_Reader_Read env i len of
        (bs, Some err) \<Rightarrow> Inl err
      | (bs, None) \<Rightarrow>
          Inr (hex_EncodeToString (take len bs @ replicate (len - length bs) 0)))"

subsection \<open>Calls that leave the server\<close>

text \<open>
  A draw from the random source or a call to the signing backend uses up one draw
  whatever it answers; a call to the signing backend is logged as well. The two calls
  to the key-management service thread its state.
\<close>

definition utils_CryptoRandomHex :: "deps \<Rightarrow> AuthServer \<Rightarrow> nat \<Rightarrow> (error + string) \<times> AuthServer" where
  "utils_CryptoRandomHex env s n = (CryptoRandomHex env (draws s) n, s\<lparr>draws := Suc (draws s)\<rparr>)"

definition GenerateKeyPair :: "deps \<Rightarrow> AuthServer \<Rightarrow> string \<Rightarrow> (error + bytes \<times> bytes) \<times> AuthServer" where
  "GenerateKeyPair env s passphrase =
     (Authority_GenerateKeyPair env (draws s) passphrase,
      s\<lparr>draws := Suc (draws s), backend_log := backend_log s @ [CallGenerateKeyPair passphrase]\<rparr>)"

definition GetNewKeyPairFromPool :: "deps \<Rightarrow> AuthServer \<Rightarrow> (error + bytes \<times> bytes) \<times> AuthServer" where
  "GetNewKeyPairFromPool env s =
     (Authority_GetNewKeyPairFromPool env (draws s),
      s\<lparr>draws := Suc (draws s), backend_log := backend_log s @ [CallGetNewKeyPairFromPool]\<rparr>)"

definition Authority_HostCert ::
  "deps \<Rightarrow> AuthServer \<Rightarrow> bytes \<Rightarrow> bytes \<Rightarrow> string \<Rightarrow> string \<Rightarrow> teleport_Role \<Rightarrow> Duration
     \<Rightarrow> (error + bytes) \<times> AuthServer" where
  "Authority_HostCert env s pkey key hostname authDomain role ttl =
     (Authority_GenerateHostCert env (draws s) pkey key hostname authDomain role ttl,
      s\<lparr>draws := Suc (draws s),
        backend_log := backend_log s @ [CallGenerateHostCert pkey key hostname authDomain role ttl]\<rparr>)"

definition Authority_UserCert ::
  "deps \<Rightarrow> AuthServer \<Rightarrow> bytes \<Rightarrow> bytes \<Rightarrow> string \<Rightarrow> Duration \<Rightarrow> (error + bytes) \<times> AuthServer" where
  "Authority_UserCert env s pkey key username ttl =
     (Authority_GenerateUserCert env (draws s) pkey key username ttl,
      s\<lparr>draws := Suc (draws s),
        backend_log := backend_log s @ [CallGenerateUserCert pkey key username ttl]\<rparr>)"

definition AddSealKey :: "deps \<Rightarrow> AuthServer \<Rightarrow> encryptor_Key \<Rightarrow> error option \<times> AuthServer" where
  "AddSealKey env s key =
     (case BkKeys_AddSealKey env (bk_keys s) key of
        Inl err \<Rightarrow> (Some err, s)
      | Inr ks \<Rightarrow> (None, s\<lparr>bk_keys := ks\<rparr>))"

definition GetSignKey :: "deps \<Rightarrow> AuthServer \<Rightarrow> error + encryptor_Key" where
  "GetSignKey env s = BkKeys_GetSignKey env (bk_keys s)"

subsection \<open>The methods of the authority server\<close>

definition GetLocalDomain :: "AuthServer \<Rightarrow> error + string" where
  "GetLocalDomain a = Inr (Hostname a)"

definition GenerateHostCert ::
  "deps \<Rightarrow> AuthServer \<Rightarrow> bytes \<Rightarrow> string \<Rightarrow> string \<Rightarrow> teleport_Role \<Rightarrow> Duration
     \<Rightarrow> (error + bytes) \<times> AuthServer" where
  "GenerateHostCert env s key hostname authDomain role ttl =
     (case GetCertAuthority s (CertAuthID HostCA (Hostname s)) True of
        Inl err \<Rightarrow> (Inl err, s)
      | Inr ca \<Rightarrow>
         (case FirstSigningKey ca of
            Inl err \<Rightarrow> (Inl err, s)
          | Inr privateKey \<Rightarrow>
              Authority_HostCert env s privateKey key hostname authDomain role ttl))"

definition GenerateUserCert ::
  "deps \<Rightarrow> AuthServer \<Rightarrow> bytes \<Rightarrow> string \<Rightarrow> Duration \<Rightarrow> (error + bytes) \<times> AuthServer" where
  "GenerateUserCert env s key username ttl =
     (case GetCertAuthority s (CertAuthID UserCA (Hostname s)) True of
        Inl err \<Rightarrow> (Inl err, s)
      | Inr ca \<Rightarrow>
         (case FirstSigningKey ca of
            Inl err \<Rightarrow> (Inl err, s)
          | Inr privateKey \<Rightarrow> Authority_UserCert env s privateKey key username ttl))"

definition NewWebSession :: "deps \<Rightarrow> AuthServer \<Rightarrow> string \<Rightarrow> (error + Session) \<times> AuthServer" where
  "NewWebSession env s userName =
     (case utils_CryptoRandomHex env s WebSessionTokenLenBytes of
        (Inl err, s1) \<Rightarrow> (Inl err, s1)
      | (Inr token, s1) \<Rightarrow>
     (case utils_CryptoRandomHex env s1 WebSessionTokenLenBytes of
        (Inl err, s2) \<Rightarrow> (Inl err, s2)
      | (Inr bearerToken, s2) \<Rightarrow>
     (case GetNewKeyPairFromPool env s2 of
        (Inl err, s3) \<Rightarrow> (Inl err, s3)
      | (Inr (priv, pub), s3) \<Rightarrow>
     (case GetCertAuthority s3 (CertAuthID UserCA (Hostname s3)) True of
        Inl err \<Rightarrow> (Inl err, s3)
      | Inr ca \<Rightarrow>
     (case FirstSigningKey ca of
        Inl err \<Rightarrow> (Inl err, s3)
      | Inr privateKey \<Rightarrow>
     (case Authority_UserCert env s3 privateKey pub userName WebSessionTTL of
        (Inl err, s4) \<Rightarrow> (Inl err, s4)
      | (Inr cert, s4) \<Rightarrow>
     (case GetUser s4 userName of
        Inl err \<Rightarrow> (Inl err, s4)
      | Inr user \<Rightarrow>
          (Inr \<lparr>ID = token, User = user,
                WS = \<lparr>Priv = priv, Pub = cert,
                       Expires = Time_Add (Time_UTC (clock_Now s4)) WebSessionTTL,
                       BearerToken = bearerToken\<rparr>\<rparr>, s4))))))))"

definition UpsertWebSession ::
  "AuthServer \<Rightarrow> string \<Rightarrow> Session \<Rightarrow> Duration \<Rightarrow> error option \<times> AuthServer" where
  "UpsertWebSession s user sess ttl = WebService_UpsertWebSession s user (ID sess) (WS sess) ttl"

definition GetWebSession :: "AuthServer \<Rightarrow> string \<Rightarrow> string \<Rightarrow> (error + Session) \<times> AuthServer" where
  "GetWebSession s userName sid =
     (case WebService_GetWebSession s userName sid of
        Inl err \<Rightarrow> (Inl err, s)
      | Inr ws \<Rightarrow>
         (case GetUser s userName of
            Inl err \<Rightarrow> (Inl err, s)
          | Inr user \<Rightarrow> (Inr \<lparr>ID = sid, User = user, WS = ws\<rparr>, s)))"

definition GetWebSessionInfo :: "AuthServer \<Rightarrow> string \<Rightarrow> string \<Rightarrow> (error + Session) \<times> AuthServer" where
  "GetWebSessionInfo s userName sid =
     (case WebService_GetWebSession s userName sid of
        Inl err \<Rightarrow> (Inl err, s)
      | Inr sess \<Rightarrow>
         (case GetUser s userName of
            Inl err \<Rightarrow> (Inl err, s)
          | Inr user \<Rightarrow> (Inr \<lparr>ID = sid, User = user, WS = sess\<lparr>Priv := []\<rparr>\<rparr>, s)))"

definition DeleteWebSession :: "AuthServer \<Rightarrow> string \<Rightarrow> string \<Rightarrow> error option \<times> AuthServer" where
  "DeleteWebSession s user sid = WebService_DeleteWebSession s user sid"

definition SignIn :: "deps \<Rightarrow> AuthServer \<Rightarrow> string \<Rightarrow> bytes \<Rightarrow> (error + Session) \<times> AuthServer" where
  "SignIn env s user password =
     (case CheckPasswordWOToken env user password of
        Some err \<Rightarrow> (Inl err, s)
      | None \<Rightarrow>
     (case NewWebSession env s user of
        (Inl err, s1) \<Rightarrow> (Inl err, s1)
      | (Inr sess, s1) \<Rightarrow>
     (case UpsertWebSession s1 user sess WebSessionTTL of
        (Some err, s2) \<Rightarrow> (Inl err, s2)
      | (None, s2) \<Rightarrow> (Inr (sess\<lparr>WS := (WS sess)\<lparr>Priv := []\<rparr>\<rparr>), s2))))"

definition CreateWebSession ::
  "deps \<Rightarrow> AuthServer \<Rightarrow> string \<Rightarrow> string \<Rightarrow> (error + Session) \<times> AuthServer" where
  "CreateWebSession env s user prevSessionID =
     (case GetWebSession s user prevSessionID of
        (Inl err, s0) \<Rightarrow> (Inl err, s0)
      | (Inr prev, s0) \<Rightarrow>
     (case NewWebSession env s0 user of
        (Inl err, s1) \<Rightarrow> (Inl err, s1)
      | (Inr sess, s1) \<Rightarrow>
     (case UpsertWebSession s1 user sess WebSessionTTL of
        (Some err, s2) \<Rightarrow> (Inl err, s2)
      | (None, s2) \<Rightarrow> (Inr (sess\<lparr>WS := (WS sess)\<lparr>Priv := []\<rparr>\<rparr>), s2))))"

definition GenerateToken ::
  "deps \<Rightarrow> AuthServer \<Rightarrow> string \<Rightarrow> teleport_Role \<Rightarrow> Duration \<Rightarrow> (error + string) \<times> AuthServer" where
  "GenerateToken env s nodeName role ttl =
     (if \<not> IsValidDomainName env nodeName
      then (Inl (BadParameter ''nodeName''
                  ([CHR 0x27] @ nodeName @ [CHR 0x27] @ '' is not a valid dns name'')), s)
      else
     (case Role_Check env role of
        Some err \<Rightarrow> (Inl err, s)
      | None \<Rightarrow>
     (case utils_CryptoRandomHex env s TokenLenBytes of
        (Inl err, s1) \<Rightarrow> (Inl err, s1)
      | (Inr token, s1) \<Rightarrow>
     (case JoinTokenRole env token role of
        Inl err \<Rightarrow> (Inl err, s1)
      | Inr outputToken \<Rightarrow>
     (case ProvisioningService_UpsertToken s1 token nodeName role ttl of
        (Some err, s2) \<Rightarrow> (Inl err, s2)
      | (None, s2) \<Rightarrow> (Inr outputToken, s2))))))"

definition ValidateToken ::
  "deps \<Rightarrow> AuthServer \<Rightarrow> string \<Rightarrow> string \<Rightarrow> (error + string) \<times> AuthServer" where
  "ValidateToken env s token domainName =
     (case SplitTokenRole env token of
        Inl err \<Rightarrow> (Inl err, s)
      | Inr (token', r) \<Rightarrow>
     (case ProvisioningService_GetToken s token' of
        Inl err \<Rightarrow> (Inl err, s)
      | Inr tok \<Rightarrow>
          if DomainName tok \<noteq> domainName
          then (Inl (Errorf ''domainName does not match''), s)
          else (Inr (Role tok), s)))"

definition DeleteToken :: "deps \<Rightarrow> AuthServer \<Rightarrow> string \<Rightarrow> error option \<times> AuthServer" where
  "DeleteToken env s outputToken =
     (case SplitTokenRole env outputToken of
        Inl err \<Rightarrow> (Some err, s)
      | Inr (token, r) \<Rightarrow> ProvisioningService_DeleteToken s token)"

definition RegisterUsingToken ::
  "deps \<Rightarrow> AuthServer \<Rightarrow> string \<Rightarrow> string \<Rightarrow> teleport_Role \<Rightarrow> (error + PackedKeys) \<times> AuthServer" where
  "RegisterUsingToken env s outputToken nodename role =
     (case Role_Check env role of
        Some err \<Rightarrow> (Inl err, s)
      | None \<Rightarrow>
     (case SplitTokenRole env outputToken of
        Inl err \<Rightarrow> (Inl err, s)
      | Inr (token, r) \<Rightarrow>
     (case ProvisioningService_GetToken s token of
        Inl err \<Rightarrow> (Inl err, s)
      | Inr tok \<Rightarrow>
     (if DomainName tok \<noteq> nodename
      then (Inl (BadParameter ''domainName'' ''domainName does not match''), s)
      else if Role tok \<noteq> role
      then (Inl (BadParameter ''token.Role'' ''role does not match''), s)
      else
     (case GenerateKeyPair env s [] of
        (Inl err, s1) \<Rightarrow> (Inl err, s1)
      | (Inr (k, pub), s1) \<Rightarrow>
     (case GenerateHostCert env s1 pub (nodename @ ''.'' @ Hostname s1) (Hostname s1) role 0 of
        (Inl err, s2) \<Rightarrow> (Inl err, s2)
      | (Inr c, s2) \<Rightarrow>
     (case DeleteToken env s2 outputToken of
        (Some err, s3) \<Rightarrow> (Inl err, s3)
      | (None, s3) \<Rightarrow> (Inr \<lparr>Key = k, Cert = c\<rparr>, s3))))))))"

definition RegisterNewAuthServer ::
  "deps \<Rightarrow> AuthServer \<Rightarrow> string \<Rightarrow> string \<Rightarrow> encryptor_Key \<Rightarrow> (error + encryptor_Key) \<times> AuthServer" where
  "RegisterNewAuthServer env s domainName outputToken publicSealKey =
     (case SplitTokenRole env outputToken of
        Inl err \<Rightarrow> (Inl err, s)
      | Inr (token, r) \<Rightarrow>
     (case ProvisioningService_GetToken s token of
        Inl err \<Rightarrow> (Inl err, s)
      | Inr tok \<Rightarrow>
     (if DomainName tok \<noteq> domainName
      then (Inl (AccessDenied ''domainName does not match''), s)
      else if Role tok \<noteq> RoleAuth env
      then (Inl (AccessDenied ''role does not match''), s)
      else
     (case DeleteToken env s outputToken of
        (Some err, s1) \<Rightarrow> (Inl err, s1)
      | (None, s1) \<Rightarrow>
     (case AddSealKey env s1 publicSealKey of
        (Some err, s2) \<Rightarrow> (Inl err, s2)
      | (None, s2) \<Rightarrow>
     (case GetSignKey env s2 of
        Inl err \<Rightarrow> (Inl err, s2)
      | Inr localKey \<Rightarrow> (Inr (Key_Public localKey), s2)))))))"

subsection \<open>A concrete server\<close>

text \<open>
  One instance of the collaborators and a few server states, on which the properties
  below are run. The codec puts one letter for the role in front of the raw token; the
  random source fills the buffer with the byte \<open>aa\<close> on the even draws and with the
  byte \<open>bb\<close> on the odd ones; a certificate is the public key followed by the name it
  is issued to.
\<close>

definition example_deps :: deps where
  "example_deps =
     \<lparr>IsValidDomainName = (\<lambda>n. n \<noteq> []),
      Role_Check = (\<lambda>r. if r = ''Auth'' \<or> r = ''Node'' then None
                         else Some (BadParameter ''role'' ''unknown role'')),
      RoleAuth = ''Auth'',
      rand_Reader_Read = (\<lambda>i n. (replicate n (if even i then 0xaa else 0xbb), None)),
      JoinTokenRole = (\<lambda>t r. if r = ''Auth'' then Inr (CHR ''a'' # t)
                              else if r = ''Node'' then Inr (CHR ''n'' # t)
                              else Inl (Errorf ''unknown role'')),
      SplitTokenRole = (\<lambda>out. case out of
                            [] \<Rightarrow> Inl (Errorf ''unknown role'')
                          | c # t \<Rightarrow> if t = [] then Inl (Errorf ''unknown role'')
                                     else if c = CHR ''n'' then Inr (t, ''Node'')
                                     else if c = CHR ''a'' then Inr (t, ''Auth'')
                                     else Inl (Errorf ''unknown role'')),
      Authority_GenerateKeyPair = (\<lambda>i p. Inr ([of_nat i, 1], [of_nat i, 2])),
      Authority_GetNewKeyPairFromPool = (\<lambda>i. Inr ([of_nat i, 3], [of_nat i, 4])),
      Authority_GenerateHostCert = (\<lambda>i pkey key hostname authDomain role ttl.
                            if pkey = [] then Inl (Errorf ''failed to parse private key'')
                            else Inr (key @ map (of_nat \<circ> of_char) hostname)),
      Authority_GenerateUserCert = (\<lambda>i pkey key username ttl.
                            if pkey = [] then Inl (Errorf ''failed to parse private key'')
                            else Inr (key @ map (of_nat \<circ> of_char) username)),
      CheckPasswordWOToken = (\<lambda>u p. if u = ''alice'' \<and> p = [7] then None
                                     else Some (BadParameter ''password'' ''passwords do not match'')),
      BkKeys_AddSealKey = (\<lambda>ks k. if KeyID k \<in> set (map KeyID (seal_keys ks))
                                   then Inl (AlreadyExists ''seal key'')
                                   else Inr (ks\<lparr>seal_keys := seal_keys ks @ [k]\<rparr>)),
      BkKeys_GetSignKey = (\<lambda>ks. case sign_keys ks of
                                   [] \<Rightarrow> Inl (NotFound ''sign key'')
                                 | k # _ \<Rightarrow> Inr k)\<rparr>"

definition example_server :: AuthServer where
  "example_server =
     \<lparr>clock_Now = \<lparr>sec = 1000, nsec = 0, location = Local\<rparr>,
      Hostname = ''cluster.example'',
      cert_authorities =
        [CertAuthID HostCA ''cluster.example'' \<mapsto> \<lparr>SigningKeys = [9] # [], CheckingKeys = [8] # []\<rparr>,
         CertAuthID UserCA ''cluster.example'' \<mapsto> \<lparr>SigningKeys = [6] # [], CheckingKeys = [5] # []\<rparr>],
      tokens = [''t1'' \<mapsto> (\<lparr>DomainName = ''db1'', Role = ''Node''\<rparr>, 0),
                ''t2'' \<mapsto> (\<lparr>DomainName = ''peer.example'', Role = ''Auth''\<rparr>, 0)],
      web_sessions =
        [(''alice'', ''sid0'') \<mapsto>
           (\<lparr>Priv = [1, 2, 3], Pub = [4], Expires = \<lparr>sec = 500, nsec = 0, location = UTC\<rparr>,
             BearerToken = ''bearer0''\<rparr>, 600000000000)],
      users = [''alice'' \<mapsto> \<lparr>Name = ''alice'', AllowedLogins = [''root'']\<rparr>],
      bk_keys = \<lparr>seal_keys = [], sign_keys = []\<rparr>,
      draws = 0,
      backend_log = []\<rparr>"

definition example_no_signing_keys :: AuthServer where
  "example_no_signing_keys =
     example_server\<lparr>cert_authorities :=
        [CertAuthID HostCA ''cluster.example'' \<mapsto> \<lparr>SigningKeys = [], CheckingKeys = [8] # []\<rparr>,
         CertAuthID UserCA ''cluster.example'' \<mapsto> \<lparr>SigningKeys = [], CheckingKeys = [5] # []\<rparr>]\<rparr>"

text \<open>The server after \<open>GenerateToken\<close> for the node \<open>db2\<close> and the role \<open>Node\<close>.\<close>

definition example_token_issued :: AuthServer where
  "example_token_issued =
     example_server\<lparr>draws := 1,
       tokens := (tokens example_server)
         (replicate 32 (CHR ''a'') \<mapsto> (\<lparr>DomainName = ''db2'', Role = ''Node''\<rparr>, 0))\<rparr>"

definition example_seal_key :: encryptor_Key where
  "example_seal_key =
     \<lparr>KeyID = ''peer'', KeyName = ''peer seal key'', PrivateValue = [], PublicValue = [1]\<rparr>"

text \<open>The session that \<open>NewWebSession\<close> builds for \<open>alice\<close> on the example server.\<close>

definition example_session :: Session where
  "example_session =
     \<lparr>ID = replicate 64 (CHR ''a''),
      User = \<lparr>Name = ''alice'', AllowedLogins = [''root'']\<rparr>,
      WS = \<lparr>Priv = [2, 3], Pub = [2, 4] @ map (of_nat \<circ> of_char) ''alice'',
             Expires = \<lparr>sec = 1600, nsec = 0, location = UTC\<rparr>,
             BearerToken = replicate 64 (CHR ''b'')\<rparr>\<rparr>"

text \<open>
  The example server with a clock five minutes before the largest second, and the
  example server with one stored session of \<open>alice\<close> whose ID is the one that the
  random source gives next.
\<close>

definition example_late_clock :: AuthServer where
  "example_late_clock =
     example_server\<lparr>clock_Now := \<lparr>sec = maxInt64 - 300, nsec = 0, location = UTC\<rparr>\<rparr>"

definition example_same_id :: AuthServer where
  "example_same_id =
     example_server\<lparr>web_sessions :=
        [(''alice'', replicate 64 (CHR ''a'')) \<mapsto>
           (\<lparr>Priv = [1, 2, 3], Pub = [4], Expires = \<lparr>sec = 500, nsec = 0, location = UTC\<rparr>,
             BearerToken = ''bearer0''\<rparr>, 600000000000)]\<rparr>"

section \<open>Properties\<close>

lemmas service_defs =
  GetCertAuthority_def FirstSigningKey_def ProvisioningService_UpsertToken_def
  ProvisioningService_GetToken_def ProvisioningService_DeleteToken_def
  WebService_UpsertWebSession_def WebService_GetWebSession_def WebService_DeleteWebSession_def
  GetUser_def Key_Public_def utils_CryptoRandomHex_def GenerateKeyPair_def
  GetNewKeyPairFromPool_def Authority_HostCert_def Authority_UserCert_def AddSealKey_def
  GetSignKey_def

lemmas method_defs =
  GetLocalDomain_def GenerateHostCert_def GenerateUserCert_def NewWebSession_def
  UpsertWebSession_def GetWebSession_def GetWebSessionInfo_def DeleteWebSession_def SignIn_def
  CreateWebSession_def GenerateToken_def ValidateToken_def DeleteToken_def
  RegisterUsingToken_def RegisterNewAuthServer_def WebSessionTTL_def Minute_def
  TokenLenBytes_def WebSessionTokenLenBytes_def Time_UTC_def

subsection \<open>Time and the random source\<close>

lemma sint_maxInt64: "sint maxInt64 = 9223372036854775807"
  by (simp add: maxInt64_def)

lemma sint_add_600:
  fixes a :: "64 word"
  shows "sint (a + 600) =
     (if sint a + 600 \<le> 9223372036854775807 then sint a + 600
      else sint a + 600 - 18446744073709551616)"
proof -
  have lo: "- 9223372036854775808 \<le> sint a" using sint_ge [of a] by simp
  have hi: "sint a < 9223372036854775808" using sint_lt [of a] by simp
  have eq: "sint (a + 600) = signed_take_bit 63 (sint a + 600)"
    by (simp add: sint_word_ariths)
  show ?thesis
  proof (cases "sint a + 600 \<le> 9223372036854775807")
    case True
    with lo have "signed_take_bit 63 (sint a + 600) = sint a + 600"
      by (intro signed_take_bit_int_eq_self) simp_all
    with True eq show ?thesis by simp
  next
    case False
    have "signed_take_bit 63 (sint a + 600)
        = take_bit 64 (sint a + 600 + 2 ^ 63) - 2 ^ 63"
      by (simp add: signed_take_bit_eq_take_bit_shift)
    also have "take_bit 64 (sint a + 600 + 2 ^ 63) = (sint a + 600 + 2 ^ 63) mod 2 ^ 64"
      by (simp add: take_bit_eq_mod)
    also have "(sint a + 600 + 2 ^ 63) mod 2 ^ 64 = sint a + 600 + 2 ^ 63 - 2 ^ 64"
    proof -
      have "(sint a + 600 + 2 ^ 63 - 2 ^ 64) mod 2 ^ 64 = sint a + 600 + 2 ^ 63 - 2 ^ 64"
        using False hi by (intro mod_pos_pos_trivial) simp_all
      moreover have "(sint a + 600 + 2 ^ 63 - 2 ^ 64) mod 2 ^ 64
          = (sint a + 600 + 2 ^ 63) mod (2 ^ 64 :: int)"
        by (metis minus_mod_self2)
      ultimately show ?thesis by simp
    qed
    finally show ?thesis using False eq by simp
  qed
qed

lemma Time_addSec_600:
  "Time_addSec t 600 =
     (if sint (sec t) + 600 \<le> 9223372036854775807 then t\<lparr>sec := sec t + 600\<rparr>
      else t\<lparr>sec := maxInt64\<rparr>)"
  using sint_lt [of "sec t"] by (simp add: Time_addSec_def sint_add_600 Let_def)

lemma Time_Add_600s:
  "0 \<le> nsec t \<Longrightarrow> nsec t < 1000000000 \<Longrightarrow>
   Time_Add t 600000000000 =
     (if sint (sec t) + 600 \<le> 9223372036854775807 then t\<lparr>sec := sec t + 600\<rparr>
      else t\<lparr>sec := maxInt64\<rparr>)"
  by (simp add: Time_Add_def go_quot_def go_rem_def Let_def Time_addSec_600)

lemma length_hex_EncodeToString: "length (hex_EncodeToString bs) = 2 * length bs"
  by (induction bs) (simp_all add: hex_EncodeToString_def)

lemma CryptoRandomHex_length:
  "CryptoRandomHex env i n = Inr t \<Longrightarrow>
     (\<exists>bs. length bs = n \<and> t = hex_EncodeToString bs) \<and> length t = 2 * n"
proof -
  assume "CryptoRandomHex env i n = Inr t"
  then obtain bs where t: "t = hex_EncodeToString (take n bs @ replicate (n - length bs) 0)"
    by (auto simp: CryptoRandomHex_def split: prod.splits option.splits)
  have "length (take n bs @ replicate (n - length bs) (0 :: 8 word)) = n" by simp
  with t show ?thesis
    by (metis length_hex_EncodeToString)
qed

lemma hex_EncodeToString_replicate:
  "hex_EncodeToString (replicate n b)
     = concat (replicate n [hextable ! (unat b div 16), hextable ! (unat b mod 16)])"
  by (induction n) (simp_all add: hex_EncodeToString_def)

lemma concat_replicate_pair: "concat (replicate n [c, c]) = replicate (2 * n) c"
  by (induction n) simp_all

lemma example_CryptoRandomHex:
  "CryptoRandomHex example_deps i n
     = Inr (replicate (2 * n) (if even i then CHR ''a'' else CHR ''b''))"
  by (simp add: CryptoRandomHex_def example_deps_def hex_EncodeToString_replicate hextable_def
      concat_replicate_pair)

lemma example_deps_fields:
  "IsValidDomainName example_deps = (\<lambda>n. n \<noteq> [])"
  "Role_Check example_deps = (\<lambda>r. if r = ''Auth'' \<or> r = ''Node'' then None
                         else Some (BadParameter ''role'' ''unknown role''))"
  "RoleAuth example_deps = ''Auth''"
  "JoinTokenRole example_deps = (\<lambda>t r. if r = ''Auth'' then Inr (CHR ''a'' # t)
                              else if r = ''Node'' then Inr (CHR ''n'' # t)
                              else Inl (Errorf ''unknown role''))"
  "SplitTokenRole example_deps = (\<lambda>out. case out of
                            [] \<Rightarrow> Inl (Errorf ''unknown role'')
                          | c # t \<Rightarrow> if t = [] then Inl (Errorf ''unknown role'')
                                     else if c = CHR ''n'' then Inr (t, ''Node'')
                                     else if c = CHR ''a'' then Inr (t, ''Auth'')
                                     else Inl (Errorf ''unknown role''))"
  "Authority_GenerateKeyPair example_deps = (\<lambda>i p. Inr ([of_nat i, 1], [of_nat i, 2]))"
  "Authority_GetNewKeyPairFromPool example_deps = (\<lambda>i. Inr ([of_nat i, 3], [of_nat i, 4]))"
  "Authority_GenerateHostCert example_deps = (\<lambda>i pkey key hostname authDomain role ttl.
                            if pkey = [] then Inl (Errorf ''failed to parse private key'')
                            else Inr (key @ map (of_nat \<circ> of_char) hostname))"
  "Authority_GenerateUserCert example_deps = (\<lambda>i pkey key username ttl.
                            if pkey = [] then Inl (Errorf ''failed to parse private key'')
                            else Inr (key @ map (of_nat \<circ> of_char) username))"
  "CheckPasswordWOToken example_deps = (\<lambda>u p. if u = ''alice'' \<and> p = [7] then None
                                     else Some (BadParameter ''password'' ''passwords do not match''))"
  "BkKeys_AddSealKey example_deps = (\<lambda>ks k. if KeyID k \<in> set (map KeyID (seal_keys ks))
                                   then Inl (AlreadyExists ''seal key'')
                                   else Inr (ks\<lparr>seal_keys := seal_keys ks @ [k]\<rparr>))"
  "BkKeys_GetSignKey example_deps = (\<lambda>ks. case sign_keys ks of
                                   [] \<Rightarrow> Inl (NotFound ''sign key'')
                                 | k # _ \<Rightarrow> Inr k)"
  by (simp_all add: example_deps_def)

lemmas example_defs =
  example_deps_fields example_CryptoRandomHex Time_Add_600s
  example_server_def example_no_signing_keys_def example_token_issued_def
  example_seal_key_def example_session_def example_late_clock_def example_same_id_def

subsection \<open>Shared facts\<close>

lemma DeleteToken_absent:
  "DeleteToken env s outputToken = (r, s') \<Longrightarrow> SplitTokenRole env outputToken = Inr (token, rl) \<Longrightarrow>
   tokens s' token = None"
  by (auto simp: DeleteToken_def ProvisioningService_DeleteToken_def split: option.splits)

lemma GenerateHostCert_frame:
  "GenerateHostCert env s key hostname authDomain role ttl = (res, s') \<Longrightarrow>
     tokens s' = tokens s \<and> Hostname s' = Hostname s"
  by (auto simp: GenerateHostCert_def Authority_HostCert_def split: sum.splits)

lemma NewWebSession_result:
  "NewWebSession env s userName = (Inr sess, s') \<Longrightarrow>
     Expires (WS sess) = Time_Add (Time_UTC (clock_Now s)) WebSessionTTL \<and>
     CryptoRandomHex env (draws s) WebSessionTokenLenBytes = Inr (ID sess) \<and>
     CryptoRandomHex env (Suc (draws s)) WebSessionTokenLenBytes = Inr (BearerToken (WS sess)) \<and>
     web_sessions s' = web_sessions s \<and> users s' = users s \<and> users s userName = Some (User sess)"
  by (auto simp: NewWebSession_def utils_CryptoRandomHex_def GetNewKeyPairFromPool_def
        Authority_UserCert_def GetUser_def
      split: sum.splits option.splits prod.splits if_splits)

lemma example_ids_differ [simp]:
  "replicate 64 (CHR ''a'') \<noteq> ''sid0''" "''sid0'' \<noteq> replicate 64 (CHR ''a'')"
  by (auto dest: arg_cong [where f = length])

lemma example_GenerateToken:
  "GenerateToken example_deps example_server ''db2'' ''Node'' 0
     = (Inr (CHR ''n'' # replicate 32 (CHR ''a'')), example_token_issued)"
  by (simp add: method_defs service_defs example_defs)

lemma CreateWebSession_success:
  assumes "CreateWebSession env s user prevSessionID = (Inr sess, s')"
  obtains prev sess0 s1 where
    "GetWebSession s user prevSessionID = (Inr prev, s)"
    "NewWebSession env s user = (Inr sess0, s1)"
    "s' = s1\<lparr>web_sessions := (web_sessions s1)((user, ID sess0) \<mapsto> (WS sess0, WebSessionTTL))\<rparr>"
    "sess = sess0\<lparr>WS := (WS sess0)\<lparr>Priv := []\<rparr>\<rparr>"
  using assms
  by (auto simp: CreateWebSession_def UpsertWebSession_def WebService_UpsertWebSession_def
        GetWebSession_def
      split: sum.splits prod.splits option.splits)

subsection \<open>Join tokens\<close>

text \<open>
  C1. Whatever \<open>DeleteToken\<close> answers for an output token, \<open>ValidateToken\<close> and
  \<open>RegisterUsingToken\<close> on the same output token right after it return an error and
  leave the state as it is: the not-found error of the provisioning store, the error of
  the token decoder, or (for \<open>RegisterUsingToken\<close>) the error of the role check.
\<close>

theorem deleted_token_is_rejected:
  "DeleteToken env s outputToken = (r, s') \<Longrightarrow>
     (\<exists>err. ValidateToken env s' outputToken domainName = (Inl err, s') \<and>
        (err = NotFound ''token not found'' \<or> SplitTokenRole env outputToken = Inl err)) \<and>
     (\<exists>err. RegisterUsingToken env s' outputToken nodename role = (Inl err, s') \<and>
        (err = NotFound ''token not found'' \<or> SplitTokenRole env outputToken = Inl err \<or>
         Role_Check env role = Some err))"
proof (cases "SplitTokenRole env outputToken")
  case (Inl e)
  then show ?thesis
    by (simp add: ValidateToken_def RegisterUsingToken_def split: option.splits)
next
  case (Inr p)
  assume del: "DeleteToken env s outputToken = (r, s')"
  obtain token rl where p: "p = (token, rl)" by (cases p)
  from DeleteToken_absent [OF del] Inr p have "tokens s' token = None" by simp
  with Inr p show ?thesis
    by (simp add: ValidateToken_def RegisterUsingToken_def ProvisioningService_GetToken_def
        split: option.splits)
qed

theorem deleted_token_is_rejected_witness:
  "DeleteToken example_deps example_server ''nt1''
     = (None, example_server\<lparr>tokens := (tokens example_server)(''t1'' := None)\<rparr>) \<and>
   ValidateToken example_deps (example_server\<lparr>tokens := (tokens example_server)(''t1'' := None)\<rparr>)
       ''nt1'' ''db1''
     = (Inl (NotFound ''token not found''),
        example_server\<lparr>tokens := (tokens example_server)(''t1'' := None)\<rparr>) \<and>
   RegisterUsingToken example_deps
       (example_server\<lparr>tokens := (tokens example_server)(''t1'' := None)\<rparr>) ''nt1'' ''db1'' ''Node''
     = (Inl (NotFound ''token not found''),
        example_server\<lparr>tokens := (tokens example_server)(''t1'' := None)\<rparr>)"
proof -
  have del: "DeleteToken example_deps example_server ''nt1''
     = (None, example_server\<lparr>tokens := (tokens example_server)(''t1'' := None)\<rparr>)"
    by (simp add: DeleteToken_def ProvisioningService_DeleteToken_def example_defs)
  have split: "SplitTokenRole example_deps ''nt1'' = Inr (''t1'', ''Node'')"
    and role: "Role_Check example_deps ''Node'' = None"
    by (simp_all add: example_defs)
  from deleted_token_is_rejected [OF del, of "''db1''" "''db1''" "''Node''"] del split role
  show ?thesis by auto
qed

text \<open>
  C3. A \<open>RegisterUsingToken\<close> call that returns an error, at whatever step, leaves the
  provisioning store as it was; in particular when the key pair was generated and the
  host certificate was refused. A call that succeeds has generated the key pair and
  obtained the host certificate, and only then removed the record of the raw token.
\<close>

theorem failed_RegisterUsingToken_keeps_token:
  "RegisterUsingToken env s outputToken nodename role = (res, s') \<Longrightarrow>
     (case res of
        Inl err \<Rightarrow> tokens s' = tokens s
      | Inr keys \<Rightarrow>
          (\<exists>token r k pub s1 s2.
             SplitTokenRole env outputToken = Inr (token, r) \<and>
             GenerateKeyPair env s [] = (Inr (k, pub), s1) \<and>
             GenerateHostCert env s1 pub (nodename @ ''.'' @ Hostname s) (Hostname s) role 0
               = (Inr (Cert keys), s2) \<and>
             tokens s' = (tokens s)(token := None)))"
  by (auto simp: RegisterUsingToken_def DeleteToken_def GenerateKeyPair_def
        ProvisioningService_GetToken_def ProvisioningService_DeleteToken_def
      split: sum.splits option.splits prod.splits if_splits
      dest!: GenerateHostCert_frame)

theorem failed_RegisterUsingToken_keeps_token_witness:
  "tokens example_no_signing_keys ''t1'' = Some (\<lparr>DomainName = ''db1'', Role = ''Node''\<rparr>, 0) \<and>
   RegisterUsingToken example_deps example_no_signing_keys ''nt1'' ''db1'' ''Node''
     = (Inl (NotFound ''no signing key available''),
        example_no_signing_keys\<lparr>draws := 1, backend_log := [CallGenerateKeyPair []]\<rparr>) \<and>
   tokens (example_no_signing_keys\<lparr>draws := 1, backend_log := [CallGenerateKeyPair []]\<rparr>)
     = tokens example_no_signing_keys"
proof -
  have run: "RegisterUsingToken example_deps example_no_signing_keys ''nt1'' ''db1'' ''Node''
     = (Inl (NotFound ''no signing key available''),
        example_no_signing_keys\<lparr>draws := 1, backend_log := [CallGenerateKeyPair []]\<rparr>)"
    by (simp add: method_defs service_defs example_defs)
  have tok: "tokens example_no_signing_keys ''t1'' = Some (\<lparr>DomainName = ''db1'', Role = ''Node''\<rparr>, 0)"
    by (simp add: example_defs)
  from failed_RegisterUsingToken_keeps_token [OF run] run tok show ?thesis by simp
qed

text \<open>
  C4, as the code has it. \<open>RegisterNewAuthServer\<close> deletes the token right after the
  domain and role checks and before it stores the seal key. For a call that returns an
  error: when the decoder fails, the record is missing, or the domain name or the role
  does not match, the state is the one before the call and the token record is kept;
  when the checks pass, the record of the raw token is removed from the provisioning
  store, and the error is the one of storing the seal key or of retrieving the sign
  key.
\<close>

theorem RegisterNewAuthServer_error_and_token:
  assumes run: "RegisterNewAuthServer env s domainName outputToken publicSealKey = (Inl err, s')"
  shows
     "(case SplitTokenRole env outputToken of
        Inl e \<Rightarrow> s' = s \<and> err = e
      | Inr (token, r) \<Rightarrow>
         (case tokens s token of
            None \<Rightarrow> s' = s \<and> err = NotFound ''token not found''
          | Some (tok, ttl) \<Rightarrow>
              if DomainName tok \<noteq> domainName
              then s' = s \<and> err = AccessDenied ''domainName does not match''
              else if Role tok \<noteq> RoleAuth env
              then s' = s \<and> err = AccessDenied ''role does not match''
              else tokens s' = (tokens s)(token := None) \<and> tokens s' token = None \<and>
                (AddSealKey env (s\<lparr>tokens := (tokens s)(token := None)\<rparr>) publicSealKey
                   = (Some err, s') \<or>
                 AddSealKey env (s\<lparr>tokens := (tokens s)(token := None)\<rparr>) publicSealKey
                   = (None, s') \<and> GetSignKey env s' = Inl err)))"
proof (cases "SplitTokenRole env outputToken")
  case (Inl e)
  with run show ?thesis by (simp add: RegisterNewAuthServer_def)
next
  case (Inr p)
  obtain token r where p: "p = (token, r)" by (cases p)
  show ?thesis
  proof (cases "tokens s token")
    case None
    with run Inr p show ?thesis
      by (simp add: RegisterNewAuthServer_def ProvisioningService_GetToken_def)
  next
    case (Some q)
    obtain tok ttl where q: "q = (tok, ttl)" by (cases q)
    let ?s1 = "s\<lparr>tokens := (tokens s)(token := None)\<rparr>"
    show ?thesis
    proof (cases "DomainName tok = domainName \<and> Role tok = RoleAuth env")
      case False
      with run Inr p Some q show ?thesis
        by (auto simp: RegisterNewAuthServer_def ProvisioningService_GetToken_def)
    next
      case True
      have del: "DeleteToken env s outputToken = (None, ?s1)"
        using Inr p Some by (simp add: DeleteToken_def ProvisioningService_DeleteToken_def)
      have frame: "\<And>r2 s2. AddSealKey env ?s1 publicSealKey = (r2, s2) \<Longrightarrow>
          tokens s2 = (tokens s)(token := None)"
        by (auto simp: AddSealKey_def split: sum.splits)
      obtain r2 s2 where add: "AddSealKey env ?s1 publicSealKey = (r2, s2)"
        by (cases "AddSealKey env ?s1 publicSealKey")
      from run Inr p Some q True del add
      have res: "(r2 = Some err \<and> s' = s2) \<or> (r2 = None \<and> s' = s2 \<and> GetSignKey env s2 = Inl err)"
        by (cases r2; cases "GetSignKey env s2")
          (simp_all add: RegisterNewAuthServer_def ProvisioningService_GetToken_def)
      with frame [OF add] add Inr p Some q True show ?thesis by auto
    qed
  qed
qed

theorem RegisterNewAuthServer_error_and_token_witness:
  "tokens example_server ''t2'' = Some (\<lparr>DomainName = ''peer.example'', Role = ''Auth''\<rparr>, 0) \<and>
   RegisterNewAuthServer example_deps example_server ''other.example'' ''at2'' example_seal_key
     = (Inl (AccessDenied ''domainName does not match''), example_server) \<and>
   RegisterNewAuthServer example_deps example_server ''peer.example'' ''at2'' example_seal_key
     = (Inl (NotFound ''sign key''),
        example_server\<lparr>tokens := (tokens example_server)(''t2'' := None),
          bk_keys := \<lparr>seal_keys = [example_seal_key], sign_keys = []\<rparr>\<rparr>) \<and>
   tokens (example_server\<lparr>tokens := (tokens example_server)(''t2'' := None),
          bk_keys := \<lparr>seal_keys = [example_seal_key], sign_keys = []\<rparr>\<rparr>)
     = (tokens example_server)(''t2'' := None)"
proof -
  have kept: "RegisterNewAuthServer example_deps example_server ''other.example'' ''at2''
      example_seal_key = (Inl (AccessDenied ''domainName does not match''), example_server)"
    by (simp add: method_defs service_defs example_defs)
  have gone: "RegisterNewAuthServer example_deps example_server ''peer.example'' ''at2''
      example_seal_key
     = (Inl (NotFound ''sign key''),
        example_server\<lparr>tokens := (tokens example_server)(''t2'' := None),
          bk_keys := \<lparr>seal_keys = [example_seal_key], sign_keys = []\<rparr>\<rparr>)"
    by (simp add: method_defs service_defs example_defs)
  have sp: "SplitTokenRole example_deps ''at2'' = Inr (''t2'', ''Auth'')"
    and auth: "RoleAuth example_deps = ''Auth''"
    and tok: "tokens example_server ''t2''
      = Some (\<lparr>DomainName = ''peer.example'', Role = ''Auth''\<rparr>, 0)"
    by (simp_all add: example_defs)
  from RegisterNewAuthServer_error_and_token [OF gone] sp auth tok
  have "tokens (example_server\<lparr>tokens := (tokens example_server)(''t2'' := None),
          bk_keys := \<lparr>seal_keys = [example_seal_key], sign_keys = []\<rparr>\<rparr>)
     = (tokens example_server)(''t2'' := None)"
    by simp
  with RegisterNewAuthServer_error_and_token [OF kept] kept gone tok show ?thesis by simp
qed

text \<open>
  C4, as stated, fails: on the example server, which holds the token \<open>t2\<close> for the peer
  \<open>peer.example\<close> with the role \<open>Auth\<close> and has no sign key, \<open>RegisterNewAuthServer\<close>
  returns the not-found error of \<open>GetSignKey\<close> and the token is gone.
\<close>

theorem RegisterNewAuthServer_error_after_delete:
  "tokens example_server ''t2'' = Some (\<lparr>DomainName = ''peer.example'', Role = ''Auth''\<rparr>, 0) \<and>
   fst (RegisterNewAuthServer example_deps example_server ''peer.example'' ''at2'' example_seal_key)
     = Inl (NotFound ''sign key'') \<and>
   tokens (snd (RegisterNewAuthServer example_deps example_server ''peer.example'' ''at2''
                  example_seal_key)) ''t2'' = None"
  by (simp add: method_defs service_defs example_defs)

text \<open>
  C5. When \<open>GenerateToken\<close> succeeds for a node name and a role, and the token decoder
  gives back the raw token that the encoder was given, \<open>ValidateToken\<close> on the returned
  output token with the node name as the domain name succeeds, returns the role that
  was passed to \<open>GenerateToken\<close>, and leaves the state as it is.
\<close>

theorem GenerateToken_then_ValidateToken:
  assumes gen: "GenerateToken env s nodeName role ttl = (Inr outputToken, s')"
    and codec: "\<forall>token out. CryptoRandomHex env (draws s) TokenLenBytes = Inr token \<and>
                  JoinTokenRole env token role = Inr out \<longrightarrow>
                  (\<exists>r. SplitTokenRole env out = Inr (token, r))"
  shows "ValidateToken env s' outputToken nodeName = (Inr role, s')"
proof -
  from gen obtain token where
    tok: "CryptoRandomHex env (draws s) TokenLenBytes = Inr token"
    and out: "JoinTokenRole env token role = Inr outputToken"
    and s': "tokens s' token = Some (\<lparr>DomainName = nodeName, Role = role\<rparr>, ttl)"
    by (auto simp: GenerateToken_def utils_CryptoRandomHex_def ProvisioningService_UpsertToken_def
        split: sum.splits option.splits prod.splits if_splits)
  from codec tok out obtain r where "SplitTokenRole env outputToken = Inr (token, r)"
    by blast
  with s' show ?thesis
    by (simp add: ValidateToken_def ProvisioningService_GetToken_def)
qed

theorem GenerateToken_then_ValidateToken_witness:
  "GenerateToken example_deps example_server ''db2'' ''Node'' 0
     = (Inr (CHR ''n'' # replicate 32 (CHR ''a'')), example_token_issued) \<and>
   ValidateToken example_deps example_token_issued (CHR ''n'' # replicate 32 (CHR ''a'')) ''db2''
     = (Inr ''Node'', example_token_issued)"
proof -
  have codec: "\<forall>token out.
      CryptoRandomHex example_deps (draws example_server) TokenLenBytes = Inr token \<and>
      JoinTokenRole example_deps token ''Node'' = Inr out \<longrightarrow>
      (\<exists>r. SplitTokenRole example_deps out = Inr (token, r))"
    by (auto simp: example_defs TokenLenBytes_def)
  from GenerateToken_then_ValidateToken [OF example_GenerateToken codec] example_GenerateToken
  show ?thesis by simp
qed

text \<open>
  C6. When \<open>RegisterUsingToken\<close> succeeds, the record stored under the raw token is
  bound to the node name and to the role of the call, and the certificate returned is
  the answer of the signing backend to one request: a host certificate for the public
  key just generated, for the name \<open>nodename.Hostname\<close>, for the authority domain
  \<open>Hostname\<close>, for the role of the call, with TTL zero, signed with the first signing
  key of the host CA of \<open>Hostname\<close>. The key returned is the private key just generated.
\<close>

theorem RegisterUsingToken_success:
  "RegisterUsingToken env s outputToken nodename role = (Inr keys, s') \<Longrightarrow>
     (\<exists>token r tok ttl k pub s1 s2 ca privateKey rest.
        SplitTokenRole env outputToken = Inr (token, r) \<and>
        tokens s token = Some (tok, ttl) \<and>
        DomainName tok = nodename \<and> Role tok = role \<and>
        GenerateKeyPair env s [] = (Inr (k, pub), s1) \<and>
        GenerateHostCert env s1 pub (nodename @ ''.'' @ Hostname s) (Hostname s) role 0
          = (Inr (Cert keys), s2) \<and>
        Key keys = k \<and>
        cert_authorities s (CertAuthID HostCA (Hostname s)) = Some ca \<and>
        SigningKeys ca = privateKey # rest \<and>
        Authority_GenerateHostCert env (Suc (draws s)) privateKey pub
          (nodename @ ''.'' @ Hostname s) (Hostname s) role 0 = Inr (Cert keys) \<and>
        backend_log s' = backend_log s @
          [CallGenerateKeyPair [],
           CallGenerateHostCert privateKey pub (nodename @ ''.'' @ Hostname s) (Hostname s) role 0])"
  by (auto simp: RegisterUsingToken_def DeleteToken_def GenerateKeyPair_def
        ProvisioningService_GetToken_def ProvisioningService_DeleteToken_def
        GenerateHostCert_def Authority_HostCert_def GetCertAuthority_def FirstSigningKey_def
      split: sum.splits option.splits prod.splits if_splits list.splits)

theorem RegisterUsingToken_success_witness:
  "RegisterUsingToken example_deps example_server ''nt1'' ''db1'' ''Node''
     = (Inr \<lparr>Key = [0, 1], Cert = [0, 2] @ map (of_nat \<circ> of_char) ''db1.cluster.example''\<rparr>,
        example_server\<lparr>draws := 2,
          backend_log := [CallGenerateKeyPair [],
            CallGenerateHostCert [9] [0, 2] ''db1.cluster.example'' ''cluster.example'' ''Node'' 0],
          tokens := (tokens example_server)(''t1'' := None)\<rparr>) \<and>
   tokens example_server ''t1'' = Some (\<lparr>DomainName = ''db1'', Role = ''Node''\<rparr>, 0) \<and>
   Authority_GenerateHostCert example_deps 1 [9] [0, 2] ''db1.cluster.example'' ''cluster.example''
       ''Node'' 0
     = Inr ([0, 2] @ map (of_nat \<circ> of_char) ''db1.cluster.example'')"
proof -
  have run: "RegisterUsingToken example_deps example_server ''nt1'' ''db1'' ''Node''
     = (Inr \<lparr>Key = [0, 1], Cert = [0, 2] @ map (of_nat \<circ> of_char) ''db1.cluster.example''\<rparr>,
        example_server\<lparr>draws := 2,
          backend_log := [CallGenerateKeyPair [],
            CallGenerateHostCert [9] [0, 2] ''db1.cluster.example'' ''cluster.example'' ''Node'' 0],
          tokens := (tokens example_server)(''t1'' := None)\<rparr>)"
    by (simp add: method_defs service_defs example_defs)
  from RegisterUsingToken_success [OF run] obtain privateKey pub rest where
    "SigningKeys \<lparr>SigningKeys = [9] # [], CheckingKeys = [8] # []\<rparr> = privateKey # rest"
    "Authority_GenerateKeyPair example_deps 0 [] = Inr ([0, 1], pub)"
    "Authority_GenerateHostCert example_deps 1 privateKey pub ''db1.cluster.example''
       ''cluster.example'' ''Node'' 0
     = Inr ([0, 2] @ map (of_nat \<circ> of_char) ''db1.cluster.example'')"
    by (auto simp: example_server_def GenerateKeyPair_def)
  then have "Authority_GenerateHostCert example_deps 1 [9] [0, 2] ''db1.cluster.example''
       ''cluster.example'' ''Node'' 0
     = Inr ([0, 2] @ map (of_nat \<circ> of_char) ''db1.cluster.example'')"
    by (simp add: example_deps_def)
  moreover have "tokens example_server ''t1'' = Some (\<lparr>DomainName = ''db1'', Role = ''Node''\<rparr>, 0)"
    by (simp add: example_defs)
  ultimately show ?thesis using run by simp
qed

text \<open>
  C8, as the code has it. \<open>ValidateToken\<close> returns the state it was given, on every
  path. It succeeds with a role exactly when the output token decodes to a raw token
  whose record is bound to the domain name of the call and to that role; and the name
  a record is bound to is the node name that \<open>GenerateToken\<close> was given. So the call
  has no node name of its own, and the name it checks is the node name of the token.
\<close>

theorem ValidateToken_reads_and_checks_bound_name:
  "snd (ValidateToken env s token domainName) = s \<and>
   (fst (ValidateToken env s token domainName) = Inr rl \<longleftrightarrow>
      (\<exists>raw r tok ttl. SplitTokenRole env token = Inr (raw, r) \<and>
         tokens s raw = Some (tok, ttl) \<and> DomainName tok = domainName \<and> Role tok = rl)) \<and>
   (GenerateToken env s nodeName role ttl' = (Inr outputToken, s') \<longrightarrow>
      (\<exists>raw tok. JoinTokenRole env raw role = Inr outputToken \<and>
         tokens s' raw = Some (tok, ttl') \<and> DomainName tok = nodeName \<and> Role tok = role))"
  by (auto simp: ValidateToken_def ProvisioningService_GetToken_def GenerateToken_def
        utils_CryptoRandomHex_def ProvisioningService_UpsertToken_def
      split: sum.splits option.splits prod.splits if_splits)

theorem ValidateToken_reads_and_checks_bound_name_witness:
  "snd (ValidateToken example_deps example_server ''nt1'' ''db1'') = example_server \<and>
   fst (ValidateToken example_deps example_server ''nt1'' ''db1'') = Inr ''Node'' \<and>
   SplitTokenRole example_deps ''nt1'' = Inr (''t1'', ''Node'') \<and>
   tokens example_server ''t1'' = Some (\<lparr>DomainName = ''db1'', Role = ''Node''\<rparr>, 0)"
proof -
  have sp: "SplitTokenRole example_deps ''nt1'' = Inr (''t1'', ''Node'')"
    and tk: "tokens example_server ''t1'' = Some (\<lparr>DomainName = ''db1'', Role = ''Node''\<rparr>, 0)"
    by (simp_all add: example_defs)
  have "\<exists>raw r tok ttl. SplitTokenRole example_deps ''nt1'' = Inr (raw, r) \<and>
      tokens example_server raw = Some (tok, ttl) \<and> DomainName tok = ''db1'' \<and> Role tok = ''Node''"
    using sp tk by simp
  with ValidateToken_reads_and_checks_bound_name [where env = example_deps and s = example_server
      and token = "''nt1''" and domainName = "''db1''" and rl = "''Node''"]
  have "snd (ValidateToken example_deps example_server ''nt1'' ''db1'') = example_server \<and>
    fst (ValidateToken example_deps example_server ''nt1'' ''db1'') = Inr ''Node''"
    by blast
  with sp tk show ?thesis by simp
qed

text \<open>
  C8, as stated, fails in its second half: after \<open>GenerateToken\<close> for the node \<open>db2\<close>
  on the example server, \<open>ValidateToken\<close> on the returned output token accepts the
  name \<open>db2\<close> and rejects the name of the cluster; the name of the joining node is what
  it checks.
\<close>

theorem ValidateToken_checks_node_name:
  "GenerateToken example_deps example_server ''db2'' ''Node'' 0
     = (Inr (CHR ''n'' # replicate 32 (CHR ''a'')), example_token_issued) \<and>
   ValidateToken example_deps example_token_issued (CHR ''n'' # replicate 32 (CHR ''a'')) ''db2''
     = (Inr ''Node'', example_token_issued) \<and>
   ValidateToken example_deps example_token_issued (CHR ''n'' # replicate 32 (CHR ''a''))
       ''cluster.example''
     = (Inl (Errorf ''domainName does not match''), example_token_issued)"
  by (simp add: method_defs service_defs example_defs)

subsection \<open>Certificates\<close>

text \<open>
  C7. When the CA record of the local domain exists and has no signing key,
  \<open>GenerateHostCert\<close> (for the host CA) and \<open>GenerateUserCert\<close> (for the user CA)
  return the not-found error "no signing key available" and the state they were given:
  the log of calls to the signing backend is as before, and no draw was used.
\<close>

theorem no_signing_key_no_backend_call:
  "(cert_authorities s (CertAuthID HostCA (Hostname s)) = Some ca \<and> SigningKeys ca = [] \<longrightarrow>
      GenerateHostCert env s key hostname authDomain role ttl
        = (Inl (NotFound ''no signing key available''), s) \<and>
      backend_log (snd (GenerateHostCert env s key hostname authDomain role ttl)) = backend_log s) \<and>
   (cert_authorities s (CertAuthID UserCA (Hostname s)) = Some ca \<and> SigningKeys ca = [] \<longrightarrow>
      GenerateUserCert env s key username ttl
        = (Inl (NotFound ''no signing key available''), s) \<and>
      backend_log (snd (GenerateUserCert env s key username ttl)) = backend_log s)"
  by (simp add: GenerateHostCert_def GenerateUserCert_def GetCertAuthority_def FirstSigningKey_def)

theorem no_signing_key_no_backend_call_witness:
  "cert_authorities example_no_signing_keys (CertAuthID HostCA (Hostname example_no_signing_keys))
     = Some \<lparr>SigningKeys = [], CheckingKeys = [8] # []\<rparr> \<and>
   GenerateHostCert example_deps example_no_signing_keys [0, 2] ''db1.cluster.example''
       ''cluster.example'' ''Node'' 0
     = (Inl (NotFound ''no signing key available''), example_no_signing_keys) \<and>
   cert_authorities example_no_signing_keys (CertAuthID UserCA (Hostname example_no_signing_keys))
     = Some \<lparr>SigningKeys = [], CheckingKeys = [5] # []\<rparr> \<and>
   GenerateUserCert example_deps example_no_signing_keys [2, 4] ''alice'' WebSessionTTL
     = (Inl (NotFound ''no signing key available''), example_no_signing_keys)"
proof -
  have h: "cert_authorities example_no_signing_keys
        (CertAuthID HostCA (Hostname example_no_signing_keys))
      = Some \<lparr>SigningKeys = [], CheckingKeys = [8] # []\<rparr>"
    and u: "cert_authorities example_no_signing_keys
        (CertAuthID UserCA (Hostname example_no_signing_keys))
      = Some \<lparr>SigningKeys = [], CheckingKeys = [5] # []\<rparr>"
    by (simp_all add: example_defs)
  from h u
    no_signing_key_no_backend_call [where s = example_no_signing_keys
      and ca = "\<lparr>SigningKeys = [], CheckingKeys = [8] # []\<rparr>"
      and env = example_deps and key = "[0, 2]" and hostname = "''db1.cluster.example''"
      and authDomain = "''cluster.example''" and role = "''Node''" and ttl = 0]
    no_signing_key_no_backend_call [where s = example_no_signing_keys
      and ca = "\<lparr>SigningKeys = [], CheckingKeys = [5] # []\<rparr>"
      and env = example_deps and key = "[2, 4]" and username = "''alice''"
      and ttl = WebSessionTTL]
  show ?thesis by simp
qed

subsection \<open>Web sessions\<close>

text \<open>
  C2. The session returned by a successful \<open>GetWebSessionInfo\<close>, \<open>SignIn\<close> or
  \<open>CreateWebSession\<close> has an empty private key, whatever the private key of the
  session in the store.
\<close>

theorem returned_session_has_no_private_key:
  "(GetWebSessionInfo s userName sid = (Inr sess, s') \<longrightarrow> Priv (WS sess) = []) \<and>
   (SignIn env s user password = (Inr sess, s') \<longrightarrow> Priv (WS sess) = []) \<and>
   (CreateWebSession env s user prevSessionID = (Inr sess, s') \<longrightarrow> Priv (WS sess) = [])"
  by (auto simp: GetWebSessionInfo_def SignIn_def CreateWebSession_def
      split: sum.splits option.splits prod.splits)

theorem returned_session_has_no_private_key_witness:
  "map_option (Priv \<circ> fst) (web_sessions example_server (''alice'', ''sid0'')) = Some [1, 2, 3] \<and>
   fst (GetWebSessionInfo example_server ''alice'' ''sid0'')
     = Inr \<lparr>ID = ''sid0'', User = \<lparr>Name = ''alice'', AllowedLogins = [''root'']\<rparr>,
            WS = \<lparr>Priv = [], Pub = [4], Expires = \<lparr>sec = 500, nsec = 0, location = UTC\<rparr>,
                   BearerToken = ''bearer0''\<rparr>\<rparr> \<and>
   fst (SignIn example_deps example_server ''alice'' [7])
     = Inr (example_session\<lparr>WS := (WS example_session)\<lparr>Priv := []\<rparr>\<rparr>) \<and>
   fst (CreateWebSession example_deps example_server ''alice'' ''sid0'')
     = Inr (example_session\<lparr>WS := (WS example_session)\<lparr>Priv := []\<rparr>\<rparr>) \<and>
   Priv (WS (example_session\<lparr>WS := (WS example_session)\<lparr>Priv := []\<rparr>\<rparr>)) = []"
proof -
  let ?r = "example_session\<lparr>WS := (WS example_session)\<lparr>Priv := []\<rparr>\<rparr>"
  have a: "fst (GetWebSessionInfo example_server ''alice'' ''sid0'')
     = Inr \<lparr>ID = ''sid0'', User = \<lparr>Name = ''alice'', AllowedLogins = [''root'']\<rparr>,
            WS = \<lparr>Priv = [], Pub = [4], Expires = \<lparr>sec = 500, nsec = 0, location = UTC\<rparr>,
                   BearerToken = ''bearer0''\<rparr>\<rparr>"
    by (simp add: GetWebSessionInfo_def WebService_GetWebSession_def GetUser_def example_defs)
  have b: "fst (SignIn example_deps example_server ''alice'' [7]) = Inr ?r"
    by (simp add: method_defs service_defs example_defs)
  have c: "fst (CreateWebSession example_deps example_server ''alice'' ''sid0'') = Inr ?r"
    by (simp add: method_defs service_defs example_defs)
  have d: "map_option (Priv \<circ> fst) (web_sessions example_server (''alice'', ''sid0''))
      = Some [1, 2, 3]"
    by (simp add: example_defs)
  have b': "SignIn example_deps example_server ''alice'' [7]
              = (Inr ?r, snd (SignIn example_deps example_server ''alice'' [7]))"
    using b by (simp add: prod_eq_iff)
  from returned_session_has_no_private_key [where env = example_deps and s = example_server
      and user = "''alice''" and password = "[7]" and sess = ?r
      and s' = "snd (SignIn example_deps example_server ''alice'' [7])"] b'
  have "Priv (WS ?r) = []" by blast
  with a b c d show ?thesis by blast
qed

text \<open>
  C9, as the code has it. The session returned by a successful \<open>NewWebSession\<close>
  expires at \<open>Add\<close> of \<open>WebSessionTTL\<close> to the reading of the server clock in UTC, and
  \<open>WebSessionTTL\<close> is ten minutes. For a well-formed reading (nanoseconds below one
  second) that is the same nanosecond 600 seconds later when that second can be
  represented, and the largest second otherwise. The session ID is the first and the
  bearer token the second answer of \<open>CryptoRandomHex\<close>, each the encoding of 32 bytes,
  64 digits long. A successful \<open>GenerateToken\<close> stores its record under an answer of
  \<open>CryptoRandomHex\<close> that is the encoding of 16 bytes, 32 digits long.
\<close>

theorem NewWebSession_expiry_and_lengths:
  "(NewWebSession env s userName = (Inr sess, s') \<longrightarrow>
      Expires (WS sess) = Time_Add (Time_UTC (clock_Now s)) WebSessionTTL \<and>
      location (Expires (WS sess)) = UTC \<and>
      (0 \<le> nsec (clock_Now s) \<and> nsec (clock_Now s) < 1000000000 \<longrightarrow>
         nsec (Expires (WS sess)) = nsec (clock_Now s) \<and>
         (sint (sec (clock_Now s)) + 600 \<le> 9223372036854775807 \<longrightarrow>
            sint (sec (Expires (WS sess))) = sint (sec (clock_Now s)) + 600) \<and>
         (9223372036854775807 < sint (sec (clock_Now s)) + 600 \<longrightarrow>
            sint (sec (Expires (WS sess))) = 9223372036854775807)) \<and>
      CryptoRandomHex env (draws s) 32 = Inr (ID sess) \<and>
      CryptoRandomHex env (Suc (draws s)) 32 = Inr (BearerToken (WS sess)) \<and>
      (\<exists>bs. length bs = 32 \<and> ID sess = hex_EncodeToString bs) \<and>
      length (ID sess) = 64 \<and>
      (\<exists>bs. length bs = 32 \<and> BearerToken (WS sess) = hex_EncodeToString bs) \<and>
      length (BearerToken (WS sess)) = 64) \<and>
   (GenerateToken env s nodeName role ttl = (Inr outputToken, s') \<longrightarrow>
      (\<exists>token. CryptoRandomHex env (draws s) 16 = Inr token \<and>
         (\<exists>bs. length bs = 16 \<and> token = hex_EncodeToString bs) \<and>
         length token = 32 \<and>
         JoinTokenRole env token role = Inr outputToken \<and>
         tokens s' token = Some (\<lparr>DomainName = nodeName, Role = role\<rparr>, ttl))) \<and>
   WebSessionTTL = 10 * Minute \<and> WebSessionTTL = 600 * 1000000000 \<and>
   WebSessionTokenLenBytes = 32 \<and> TokenLenBytes = 16"
proof -
  have ttl: "WebSessionTTL = 600000000000"
    by (simp add: WebSessionTTL_def Minute_def)
  have new: "NewWebSession env s userName = (Inr sess, s') \<longrightarrow>
      Expires (WS sess) = Time_Add (Time_UTC (clock_Now s)) WebSessionTTL \<and>
      location (Expires (WS sess)) = UTC \<and>
      (0 \<le> nsec (clock_Now s) \<and> nsec (clock_Now s) < 1000000000 \<longrightarrow>
         nsec (Expires (WS sess)) = nsec (clock_Now s) \<and>
         (sint (sec (clock_Now s)) + 600 \<le> 9223372036854775807 \<longrightarrow>
            sint (sec (Expires (WS sess))) = sint (sec (clock_Now s)) + 600) \<and>
         (9223372036854775807 < sint (sec (clock_Now s)) + 600 \<longrightarrow>
            sint (sec (Expires (WS sess))) = 9223372036854775807)) \<and>
      CryptoRandomHex env (draws s) 32 = Inr (ID sess) \<and>
      CryptoRandomHex env (Suc (draws s)) 32 = Inr (BearerToken (WS sess)) \<and>
      (\<exists>bs. length bs = 32 \<and> ID sess = hex_EncodeToString bs) \<and>
      length (ID sess) = 64 \<and>
      (\<exists>bs. length bs = 32 \<and> BearerToken (WS sess) = hex_EncodeToString bs) \<and>
      length (BearerToken (WS sess)) = 64"
  proof
    assume run: "NewWebSession env s userName = (Inr sess, s')"
    note r = NewWebSession_result [OF run]
    from r have ex: "Expires (WS sess) = Time_Add (Time_UTC (clock_Now s)) WebSessionTTL"
      and id: "CryptoRandomHex env (draws s) 32 = Inr (ID sess)"
      and bt: "CryptoRandomHex env (Suc (draws s)) 32 = Inr (BearerToken (WS sess))"
      by (simp_all add: WebSessionTokenLenBytes_def)
    have loc: "location (Expires (WS sess)) = UTC"
      by (simp add: ex Time_Add_def Time_addSec_def Time_UTC_def Let_def)
    have tm: "0 \<le> nsec (clock_Now s) \<and> nsec (clock_Now s) < 1000000000 \<longrightarrow>
         nsec (Expires (WS sess)) = nsec (clock_Now s) \<and>
         (sint (sec (clock_Now s)) + 600 \<le> 9223372036854775807 \<longrightarrow>
            sint (sec (Expires (WS sess))) = sint (sec (clock_Now s)) + 600) \<and>
         (9223372036854775807 < sint (sec (clock_Now s)) + 600 \<longrightarrow>
            sint (sec (Expires (WS sess))) = 9223372036854775807)"
      by (simp add: ex ttl Time_UTC_def Time_Add_600s sint_add_600 sint_maxInt64)
    from CryptoRandomHex_length [OF id] CryptoRandomHex_length [OF bt] ex loc tm id bt
    show "Expires (WS sess) = Time_Add (Time_UTC (clock_Now s)) WebSessionTTL \<and>
      location (Expires (WS sess)) = UTC \<and>
      (0 \<le> nsec (clock_Now s) \<and> nsec (clock_Now s) < 1000000000 \<longrightarrow>
         nsec (Expires (WS sess)) = nsec (clock_Now s) \<and>
         (sint (sec (clock_Now s)) + 600 \<le> 9223372036854775807 \<longrightarrow>
            sint (sec (Expires (WS sess))) = sint (sec (clock_Now s)) + 600) \<and>
         (9223372036854775807 < sint (sec (clock_Now s)) + 600 \<longrightarrow>
            sint (sec (Expires (WS sess))) = 9223372036854775807)) \<and>
      CryptoRandomHex env (draws s) 32 = Inr (ID sess) \<and>
      CryptoRandomHex env (Suc (draws s)) 32 = Inr (BearerToken (WS sess)) \<and>
      (\<exists>bs. length bs = 32 \<and> ID sess = hex_EncodeToString bs) \<and>
      length (ID sess) = 64 \<and>
      (\<exists>bs. length bs = 32 \<and> BearerToken (WS sess) = hex_EncodeToString bs) \<and>
      length (BearerToken (WS sess)) = 64"
      by simp
  qed
  have gen: "GenerateToken env s nodeName role ttl = (Inr outputToken, s') \<longrightarrow>
      (\<exists>token. CryptoRandomHex env (draws s) 16 = Inr token \<and>
         (\<exists>bs. length bs = 16 \<and> token = hex_EncodeToString bs) \<and>
         length token = 32 \<and>
         JoinTokenRole env token role = Inr outputToken \<and>
         tokens s' token = Some (\<lparr>DomainName = nodeName, Role = role\<rparr>, ttl))"
  proof
    assume run: "GenerateToken env s nodeName role ttl = (Inr outputToken, s')"
    then obtain token where
      tk: "CryptoRandomHex env (draws s) 16 = Inr token"
      and out: "JoinTokenRole env token role = Inr outputToken"
      and st: "tokens s' token = Some (\<lparr>DomainName = nodeName, Role = role\<rparr>, ttl)"
      by (auto simp: GenerateToken_def utils_CryptoRandomHex_def TokenLenBytes_def
          ProvisioningService_UpsertToken_def
          split: sum.splits option.splits prod.splits if_splits)
    from CryptoRandomHex_length [OF tk] tk out st
    show "\<exists>token. CryptoRandomHex env (draws s) 16 = Inr token \<and>
         (\<exists>bs. length bs = 16 \<and> token = hex_EncodeToString bs) \<and>
         length token = 32 \<and>
         JoinTokenRole env token role = Inr outputToken \<and>
         tokens s' token = Some (\<lparr>DomainName = nodeName, Role = role\<rparr>, ttl)"
      by auto
  qed
  have cs: "WebSessionTTL = 10 * Minute \<and> WebSessionTTL = 600 * 1000000000 \<and>
      WebSessionTokenLenBytes = 32 \<and> TokenLenBytes = 16"
    by (simp add: WebSessionTTL_def Minute_def WebSessionTokenLenBytes_def TokenLenBytes_def)
  show ?thesis
    by (rule conjI [OF new conjI [OF gen cs]])
qed

theorem NewWebSession_expiry_and_lengths_witness:
  "NewWebSession example_deps example_server ''alice''
     = (Inr example_session,
        example_server\<lparr>draws := 4,
          backend_log := [CallGetNewKeyPairFromPool,
            CallGenerateUserCert [6] [2, 4] ''alice'' 600000000000]\<rparr>) \<and>
   clock_Now example_server = \<lparr>sec = 1000, nsec = 0, location = Local\<rparr> \<and>
   Expires (WS example_session) = \<lparr>sec = 1600, nsec = 0, location = UTC\<rparr> \<and>
   sint (sec (Expires (WS example_session))) = sint (sec (clock_Now example_server)) + 600 \<and>
   ID example_session = replicate 64 (CHR ''a'') \<and> length (ID example_session) = 64 \<and>
   BearerToken (WS example_session) = replicate 64 (CHR ''b'') \<and>
   length (BearerToken (WS example_session)) = 64 \<and>
   GenerateToken example_deps example_server ''db2'' ''Node'' 0
     = (Inr (CHR ''n'' # replicate 32 (CHR ''a'')), example_token_issued) \<and>
   tokens example_token_issued (replicate 32 (CHR ''a''))
     = Some (\<lparr>DomainName = ''db2'', Role = ''Node''\<rparr>, 0) \<and>
   length (replicate 32 (CHR ''a'')) = 32"
proof -
  let ?s' = "example_server\<lparr>draws := 4,
          backend_log := [CallGetNewKeyPairFromPool,
            CallGenerateUserCert [6] [2, 4] ''alice'' 600000000000]\<rparr>"
  have run: "NewWebSession example_deps example_server ''alice'' = (Inr example_session, ?s')"
    by (simp add: method_defs service_defs example_defs)
  have now: "clock_Now example_server = \<lparr>sec = 1000, nsec = 0, location = Local\<rparr>"
    and ex: "Expires (WS example_session) = \<lparr>sec = 1600, nsec = 0, location = UTC\<rparr>"
    and ids: "ID example_session = replicate 64 (CHR ''a'')"
      "BearerToken (WS example_session) = replicate 64 (CHR ''b'')"
    by (simp_all add: example_defs)
  have wf: "0 \<le> nsec (clock_Now example_server) \<and> nsec (clock_Now example_server) < 1000000000"
    and inrange: "sint (sec (clock_Now example_server)) + 600 \<le> 9223372036854775807"
    by (simp_all add: now)
  from NewWebSession_expiry_and_lengths [where env = example_deps and s = example_server
      and userName = "''alice''" and sess = example_session and s' = ?s'] run wf inrange
  have a: "sint (sec (Expires (WS example_session))) = sint (sec (clock_Now example_server)) + 600 \<and>
      length (ID example_session) = 64 \<and> length (BearerToken (WS example_session)) = 64"
    by blast
  from NewWebSession_expiry_and_lengths [where env = example_deps and s = example_server
      and nodeName = "''db2''" and role = "''Node''" and ttl = 0
      and outputToken = "CHR ''n'' # replicate 32 (CHR ''a'')" and s' = example_token_issued]
    example_GenerateToken
  obtain token where
    "JoinTokenRole example_deps token ''Node'' = Inr (CHR ''n'' # replicate 32 (CHR ''a''))"
    "tokens example_token_issued token = Some (\<lparr>DomainName = ''db2'', Role = ''Node''\<rparr>, 0)"
    "length token = 32"
    by blast
  then have b: "tokens example_token_issued (replicate 32 (CHR ''a''))
     = Some (\<lparr>DomainName = ''db2'', Role = ''Node''\<rparr>, 0)"
    by (simp add: example_deps_fields)
  from a b run now ex ids example_GenerateToken show ?thesis by simp
qed

text \<open>
  C9, as stated, fails in its first half: with the clock 300 seconds before the largest
  second, \<open>NewWebSession\<close> succeeds and the session expires at the largest second, 300
  seconds and not ten minutes after the reading of the clock.
\<close>

theorem NewWebSession_expiry_saturates:
  "fst (NewWebSession example_deps example_late_clock ''alice'')
     = Inr (example_session\<lparr>WS := (WS example_session)
              \<lparr>Expires := \<lparr>sec = maxInt64, nsec = 0, location = UTC\<rparr>\<rparr>\<rparr>) \<and>
   sint (sec (clock_Now example_late_clock)) = 9223372036854775507 \<and>
   sint maxInt64 = sint (sec (clock_Now example_late_clock)) + 300 \<and>
   sint maxInt64 \<noteq> sint (sec (clock_Now example_late_clock)) + 600"
  by (simp add: method_defs service_defs example_defs maxInt64_def)

text \<open>
  C10, as the code has it. After a successful \<open>CreateWebSession\<close> for a user and a
  previous session ID, \<open>GetWebSession\<close> for that user and ID still succeeds. The
  web-session store is the one before the call with one record written, under the user
  and the ID of the new session, with the TTL \<open>WebSessionTTL\<close>; nothing is removed. The
  new ID is the answer of the random source and is not compared with the IDs in the
  store: when it is not the previous ID, the record of the previous session is the one
  before the call, and \<open>GetWebSession\<close> returns for it what it returned before; when
  it is the previous ID, the record of the previous session is replaced by the new
  session.
\<close>

theorem CreateWebSession_keeps_previous_session:
  assumes run: "CreateWebSession env s user prevSessionID = (Inr sess, s')"
  shows "(\<exists>old. GetWebSession s' user prevSessionID = (Inr old, s')) \<and>
     (\<exists>priv. web_sessions s'
        = (web_sessions s)((user, ID sess) \<mapsto> ((WS sess)\<lparr>Priv := priv\<rparr>, WebSessionTTL))) \<and>
     (ID sess \<noteq> prevSessionID \<longrightarrow>
        web_sessions s' (user, prevSessionID) = web_sessions s (user, prevSessionID) \<and>
        web_sessions s (user, prevSessionID) \<noteq> None \<and>
        fst (GetWebSession s' user prevSessionID) = fst (GetWebSession s user prevSessionID)) \<and>
     (ID sess = prevSessionID \<longrightarrow>
        (\<exists>priv. web_sessions s' (user, prevSessionID)
           = Some ((WS sess)\<lparr>Priv := priv\<rparr>, WebSessionTTL)))"
proof -
  from run obtain prev sess0 s1 where
    old: "GetWebSession s user prevSessionID = (Inr prev, s)"
    and new: "NewWebSession env s user = (Inr sess0, s1)"
    and s': "s' = s1\<lparr>web_sessions :=
               (web_sessions s1)((user, ID sess0) \<mapsto> (WS sess0, WebSessionTTL))\<rparr>"
    and sess: "sess = sess0\<lparr>WS := (WS sess0)\<lparr>Priv := []\<rparr>\<rparr>"
    by (rule CreateWebSession_success)
  from NewWebSession_result [OF new]
  have frame: "web_sessions s1 = web_sessions s" "users s1 = users s" by simp_all
  have stored: "web_sessions s'
      = (web_sessions s)((user, ID sess) \<mapsto> ((WS sess)\<lparr>Priv := Priv (WS sess0)\<rparr>, WebSessionTTL))"
    by (simp add: s' sess frame)
  from old have present: "web_sessions s (user, prevSessionID) \<noteq> None"
    by (auto simp: GetWebSession_def WebService_GetWebSession_def split: option.splits)
  from old have usr: "users s user \<noteq> None"
    by (auto simp: GetWebSession_def WebService_GetWebSession_def GetUser_def
        split: option.splits sum.splits)
  have still: "\<exists>old. GetWebSession s' user prevSessionID = (Inr old, s')"
    using present usr
    by (auto simp: GetWebSession_def WebService_GetWebSession_def GetUser_def s' frame)
  have same: "ID sess \<noteq> prevSessionID \<longrightarrow>
      web_sessions s' (user, prevSessionID) = web_sessions s (user, prevSessionID) \<and>
      fst (GetWebSession s' user prevSessionID) = fst (GetWebSession s user prevSessionID)"
    by (auto simp: GetWebSession_def WebService_GetWebSession_def GetUser_def s' sess frame
        split: option.splits sum.splits)
  from stored have replaced: "ID sess = prevSessionID \<longrightarrow>
      (\<exists>priv. web_sessions s' (user, prevSessionID)
         = Some ((WS sess)\<lparr>Priv := priv\<rparr>, WebSessionTTL))"
    by auto
  from still stored present same replaced show ?thesis by blast
qed

theorem CreateWebSession_keeps_previous_session_witness:
  "fst (CreateWebSession example_deps example_server ''alice'' ''sid0'')
     = Inr (example_session\<lparr>WS := (WS example_session)\<lparr>Priv := []\<rparr>\<rparr>) \<and>
   ID (example_session\<lparr>WS := (WS example_session)\<lparr>Priv := []\<rparr>\<rparr>) \<noteq> ''sid0'' \<and>
   web_sessions (snd (CreateWebSession example_deps example_server ''alice'' ''sid0''))
       (''alice'', ''sid0'')
     = web_sessions example_server (''alice'', ''sid0'') \<and>
   web_sessions (snd (CreateWebSession example_deps example_server ''alice'' ''sid0''))
       (''alice'', ID example_session)
     = Some (WS example_session, WebSessionTTL) \<and>
   fst (GetWebSession (snd (CreateWebSession example_deps example_server ''alice'' ''sid0''))
       ''alice'' ''sid0'')
     = Inr \<lparr>ID = ''sid0'', User = \<lparr>Name = ''alice'', AllowedLogins = [''root'']\<rparr>,
            WS = \<lparr>Priv = [1, 2, 3], Pub = [4], Expires = \<lparr>sec = 500, nsec = 0, location = UTC\<rparr>,
                   BearerToken = ''bearer0''\<rparr>\<rparr> \<and>
   fst (CreateWebSession example_deps example_same_id ''alice'' (replicate 64 (CHR ''a'')))
     = Inr (example_session\<lparr>WS := (WS example_session)\<lparr>Priv := []\<rparr>\<rparr>) \<and>
   ID (example_session\<lparr>WS := (WS example_session)\<lparr>Priv := []\<rparr>\<rparr>) = replicate 64 (CHR ''a'') \<and>
   map_option (Pub \<circ> fst)
     (web_sessions (snd (CreateWebSession example_deps example_same_id ''alice''
                           (replicate 64 (CHR ''a''))))
        (''alice'', replicate 64 (CHR ''a'')))
     = Some (Pub (WS example_session))"
proof -
  let ?r = "example_session\<lparr>WS := (WS example_session)\<lparr>Priv := []\<rparr>\<rparr>"
  let ?s' = "snd (CreateWebSession example_deps example_server ''alice'' ''sid0'')"
  let ?t' = "snd (CreateWebSession example_deps example_same_id ''alice'' (replicate 64 (CHR ''a'')))"
  have res: "fst (CreateWebSession example_deps example_server ''alice'' ''sid0'') = Inr ?r"
    by (simp add: method_defs service_defs example_defs)
  then have run: "CreateWebSession example_deps example_server ''alice'' ''sid0'' = (Inr ?r, ?s')"
    by (simp add: prod_eq_iff)
  have fresh: "ID ?r \<noteq> ''sid0''"
    by (simp add: example_defs)
  have new: "web_sessions ?s' (''alice'', ID example_session)
      = Some (WS example_session, WebSessionTTL)"
    by (simp add: method_defs service_defs example_defs)
  have old: "fst (GetWebSession example_server ''alice'' ''sid0'')
     = Inr \<lparr>ID = ''sid0'', User = \<lparr>Name = ''alice'', AllowedLogins = [''root'']\<rparr>,
            WS = \<lparr>Priv = [1, 2, 3], Pub = [4], Expires = \<lparr>sec = 500, nsec = 0, location = UTC\<rparr>,
                   BearerToken = ''bearer0''\<rparr>\<rparr>"
    by (simp add: GetWebSession_def WebService_GetWebSession_def GetUser_def example_defs)
  have res2: "fst (CreateWebSession example_deps example_same_id ''alice''
      (replicate 64 (CHR ''a''))) = Inr ?r"
    by (simp add: method_defs service_defs example_defs)
  then have run2: "CreateWebSession example_deps example_same_id ''alice''
      (replicate 64 (CHR ''a'')) = (Inr ?r, ?t')"
    by (simp add: prod_eq_iff)
  have same: "ID ?r = replicate 64 (CHR ''a'')"
    by (simp add: example_defs)
  from CreateWebSession_keeps_previous_session [OF run2] same
  obtain priv where "web_sessions ?t' (''alice'', replicate 64 (CHR ''a''))
      = Some ((WS ?r)\<lparr>Priv := priv\<rparr>, WebSessionTTL)"
    by blast
  then have over: "map_option (Pub \<circ> fst)
      (web_sessions ?t' (''alice'', replicate 64 (CHR ''a''))) = Some (Pub (WS example_session))"
    by simp
  from CreateWebSession_keeps_previous_session [OF run] fresh old res new
  have first: "fst (CreateWebSession example_deps example_server ''alice'' ''sid0'') = Inr ?r \<and>
    ID ?r \<noteq> ''sid0'' \<and>
    web_sessions ?s' (''alice'', ''sid0'') = web_sessions example_server (''alice'', ''sid0'') \<and>
    web_sessions ?s' (''alice'', ID example_session) = Some (WS example_session, WebSessionTTL) \<and>
    fst (GetWebSession ?s' ''alice'' ''sid0'')
     = Inr \<lparr>ID = ''sid0'', User = \<lparr>Name = ''alice'', AllowedLogins = [''root'']\<rparr>,
            WS = \<lparr>Priv = [1, 2, 3], Pub = [4], Expires = \<lparr>sec = 500, nsec = 0, location = UTC\<rparr>,
                   BearerToken = ''bearer0''\<rparr>\<rparr>"
    by simp
  from first res2 same over show ?thesis by blast
qed

text \<open>
  C10, as stated, fails: on the example server whose one stored session of \<open>alice\<close>
  has the ID that the random source gives next, \<open>CreateWebSession\<close> for that ID
  succeeds and the stored session, whose private key was \<open>[1, 2, 3]\<close>, is replaced by
  the new one, whose private key is \<open>[2, 3]\<close>.
\<close>

theorem CreateWebSession_overwrites_on_same_id:
  "map_option (Priv \<circ> fst) (web_sessions example_same_id (''alice'', replicate 64 (CHR ''a'')))
     = Some [1, 2, 3] \<and>
   fst (CreateWebSession example_deps example_same_id ''alice'' (replicate 64 (CHR ''a'')))
     = Inr (example_session\<lparr>WS := (WS example_session)\<lparr>Priv := []\<rparr>\<rparr>) \<and>
   map_option (Priv \<circ> fst)
     (web_sessions (snd (CreateWebSession example_deps example_same_id ''alice''
                           (replicate 64 (CHR ''a''))))
        (''alice'', replicate 64 (CHR ''a'')))
     = Some [2, 3]"
  by (simp add: method_defs service_defs example_defs)

end
